theory Spec2Isabelle
  imports Main "HOL-Library.Sublist"
begin

section \<open>Python values\<close>

text \<open>
  The summarizer is dynamically typed: its argument and the fragments inside it are
  arbitrary Python values. The values modelled concretely are \<open>None\<close>, \<open>str\<close>,
  \<open>int\<close>, \<open>bool\<close> and \<open>list\<close>. \<open>PyIterable x items\<close> is any other iterable object \<open>x\<close>
  (a tuple, a dictionary, a set, a range) together with the items that iterating it
  yields, in order. \<open>PyOther x\<close> is any other object \<open>x\<close> that cannot be iterated (a
  float, an instance of a class without \<open>__iter__\<close>). A \<open>str\<close> is a list of
  characters; its length counts characters.
\<close>

datatype 'a pyval =
    PyNone
  | PyStr string
  | PyInt int
  | PyBool bool
  | PyList "'a pyval list"
  | PyIterable 'a "'a pyval list"
  | PyOther 'a

text \<open>
  The exceptions that reach \<open>summarize\<close>: \<open>TypeError\<close> from iterating an object that is
  not iterable, \<open>ValueError\<close> and \<open>RecursionError\<close> from \<open>str\<close> of a builtin value, and
  \<open>OtherException\<close> for whatever else the \<open>__str__\<close> of an object raises.
\<close>

datatype py_error = TypeError | ValueError | RecursionError | OtherException

subsection \<open>The builtin \<open>str\<close>\<close>

definition digit_char :: "nat \<Rightarrow> char" where
  "digit_char d = ''0123456789'' ! d"

function str_nat :: "nat \<Rightarrow> string" where
  "str_nat n = (if n < 10 then [digit_char n] else str_nat (n div 10) @ [digit_char (n mod 10)])"
  by pat_completeness auto
termination
  by (relation "measure id") auto

declare str_nat.simps [simp del]

definition str_int :: "int \<Rightarrow> string" where
  "str_int i = (if i < 0 then ''-'' @ str_nat (nat (- i)) else str_nat (nat i))"

text \<open>
  The text of a value when \<open>str\<close> returns: a \<open>str\<close> is its own text, an \<open>int\<close> gives
  its decimal numeral, a \<open>bool\<close> gives \<open>True\<close> or \<open>False\<close>, \<open>None\<close> gives \<open>None\<close>. The text
  of a list or of any other object is computed by Python (\<open>repr\<close> of the elements,
  \<open>__str__\<close> of a class); it is the parameter \<open>other\<close>. The calls of \<open>str\<close> that do
  not return, and the calls that change the store, are the subject of the sections on
  exceptions and on the store below.
\<close>

definition py_str :: "('a pyval \<Rightarrow> string) \<Rightarrow> 'a pyval \<Rightarrow> string" where
  "py_str other v =
     (case v of
        PyNone \<Rightarrow> ''None''
      | PyStr s \<Rightarrow> s
      | PyInt i \<Rightarrow> str_int i
      | PyBool b \<Rightarrow> (if b then ''True'' else ''False'')
      | PyList xs \<Rightarrow> other v
      | PyIterable x items \<Rightarrow> other v
      | PyOther x \<Rightarrow> other v)"

subsection \<open>Iteration and \<open>str.join\<close>\<close>

text \<open>
  \<open>for chunk in chunks\<close>: a list yields its elements in order, a \<open>str\<close> yields its
  characters as one-character strings, any other iterable object yields its items,
  and anything else raises \<open>TypeError\<close> (\<open>object is not iterable\<close>).
\<close>

definition py_iter :: "'a pyval \<Rightarrow> py_error + 'a pyval list" where
  "py_iter v =
     (case v of
        PyList xs \<Rightarrow> Inr xs
      | PyStr s \<Rightarrow> Inr (map (\<lambda>c. PyStr [c]) s)
      | PyIterable x items \<Rightarrow> Inr items
      | PyNone \<Rightarrow> Inl TypeError
      | PyInt i \<Rightarrow> Inl TypeError
      | PyBool b \<Rightarrow> Inl TypeError
      | PyOther x \<Rightarrow> Inl TypeError)"

text \<open>\<open>sep.join(parts)\<close> on a list of strings.\<close>

fun py_join :: "string \<Rightarrow> string list \<Rightarrow> string" where
  "py_join sep [] = []"
| "py_join sep [x] = x"
| "py_join sep (x # y # ys) = x @ sep @ py_join sep (y # ys)"

section \<open>\<open>ContextSummarizer.summarize\<close>\<close>

text \<open>
  The loop of \<open>summarize\<close> over the items of \<open>chunks\<close>, with the list \<open>safe_chunks\<close> it
  appends to: a \<open>None\<close> item is skipped (\<open>continue\<close>), any other item is converted with
  \<open>str\<close> and its first 5000 characters are appended.
\<close>

fun summarize_loop :: "('a pyval \<Rightarrow> string) \<Rightarrow> 'a pyval list \<Rightarrow> string list \<Rightarrow> string list" where
  "summarize_loop other [] safe_chunks = safe_chunks"
| "summarize_loop other (chunk # rest) safe_chunks =
     (case chunk of
        PyNone \<Rightarrow> summarize_loop other rest safe_chunks
      | _ \<Rightarrow> (let text = py_str other chunk
              in summarize_loop other rest (safe_chunks @ [take 5000 text])))"

definition summarize :: "('a pyval \<Rightarrow> string) \<Rightarrow> 'a pyval \<Rightarrow> py_error + string" where
  "summarize other chunks =
     (case chunks of
        PyNone \<Rightarrow> Inr ''''
      | _ \<Rightarrow>
         (case py_iter chunks of
            Inl e \<Rightarrow> Inl e
          | Inr items \<Rightarrow>
             (let safe_chunks = summarize_loop other items []
              in if safe_chunks = [] then Inr ''''
                 else (let summary = py_join ''\<newline>'' safe_chunks
                       in Inr (take 20000 summary)))))"

section \<open>\<open>summarize\<close> with the exceptions of \<open>str\<close>\<close>

text \<open>
  \<open>str(chunk)\<close> is not guarded in \<open>summarize\<close>: an exception it raises leaves the
  function. \<open>str\<close> of an \<open>int\<close> raises \<open>ValueError\<close> when the numeral would have more
  digits than \<open>sys.int_max_str_digits\<close>, 4300 by default in CPython 3.11. \<open>str\<close> of a
  list or of any other object runs \<open>repr\<close> and \<open>__str__\<close> code, which returns a text or
  raises (\<open>RecursionError\<close> on a deeply nested list, anything in a class of the
  caller); it is the parameter \<open>obj_str\<close>.
\<close>

definition int_max_str_digits :: nat where
  "int_max_str_digits = 4300"

definition py_str_exc :: "('a pyval \<Rightarrow> py_error + string) \<Rightarrow> 'a pyval \<Rightarrow> py_error + string" where
  "py_str_exc obj_str v =
     (case v of
        PyNone \<Rightarrow> Inr ''None''
      | PyStr s \<Rightarrow> Inr s
      | PyInt i \<Rightarrow>
          (if int_max_str_digits < length (str_nat (nat \<bar>i\<bar>)) then Inl ValueError
           else Inr (str_int i))
      | PyBool b \<Rightarrow> Inr (if b then ''True'' else ''False'')
      | PyList xs \<Rightarrow> obj_str v
      | PyIterable x items \<Rightarrow> obj_str v
      | PyOther x \<Rightarrow> obj_str v)"

fun summarize_loop_exc ::
  "('a pyval \<Rightarrow> py_error + string) \<Rightarrow> 'a pyval list \<Rightarrow> string list \<Rightarrow> py_error + string list" where
  "summarize_loop_exc obj_str [] safe_chunks = Inr safe_chunks"
| "summarize_loop_exc obj_str (chunk # rest) safe_chunks =
     (case chunk of
        PyNone \<Rightarrow> summarize_loop_exc obj_str rest safe_chunks
      | _ \<Rightarrow> (case py_str_exc obj_str chunk of
                Inl e \<Rightarrow> Inl e
              | Inr text \<Rightarrow> summarize_loop_exc obj_str rest (safe_chunks @ [take 5000 text])))"

definition summarize_exc :: "('a pyval \<Rightarrow> py_error + string) \<Rightarrow> 'a pyval \<Rightarrow> py_error + string" where
  "summarize_exc obj_str chunks =
     (case chunks of
        PyNone \<Rightarrow> Inr ''''
      | _ \<Rightarrow>
         (case py_iter chunks of
            Inl e \<Rightarrow> Inl e
          | Inr items \<Rightarrow>
             (case summarize_loop_exc obj_str items [] of
                Inl e \<Rightarrow> Inl e
              | Inr safe_chunks \<Rightarrow>
                 (if safe_chunks = [] then Inr ''''
                  else (let summary = py_join ''\<newline>'' safe_chunks
                        in Inr (take 20000 summary))))))"


definition plain_str :: "unit pyval \<Rightarrow> py_error + string" where
  "plain_str v = Inr ''obj''"

section \<open>The summarizer on a store\<close>

text \<open>
  Lists and iterators are mutable objects reached through references, so whether
  \<open>summarize\<close> leaves its argument alone is a question about the store. The store maps
  an address to a list object with its items, or to an iterator object (an iterator
  or generator, read once) with the items it has still to yield. \<open>next_addr\<close> is the
  next free address and \<open>io_log\<close> records everything the program has written
  (standard output, files). The argument of \<open>summarize\<close> is \<open>None\<close> or a reference.
\<close>

type_synonym addr = nat

datatype 'a heap_obj = ListObj "'a pyval list" | IterObj "'a pyval list"

record 'a py_state =
  heap :: "addr \<Rightarrow> 'a heap_obj option"
  next_addr :: addr
  io_log :: "string list"

datatype py_ref = RefNone | Ref addr

text \<open>\<open>safe_chunks = []\<close> allocates a new list object.\<close>

definition new_list :: "'a py_state \<Rightarrow> addr \<times> 'a py_state" where
  "new_list s =
     (next_addr s,
      s\<lparr>heap := (heap s)(next_addr s \<mapsto> ListObj []), next_addr := Suc (next_addr s)\<rparr>)"

text \<open>\<open>lst.append(v)\<close> updates the list object in place.\<close>

definition list_append :: "addr \<Rightarrow> 'a pyval \<Rightarrow> 'a py_state \<Rightarrow> 'a py_state" where
  "list_append a v s =
     (case heap s a of
        Some (ListObj items) \<Rightarrow> s\<lparr>heap := (heap s)(a \<mapsto> ListObj (items @ [v]))\<rparr>
      | _ \<Rightarrow> s)"

text \<open>
  \<open>str(v)\<close> on the store. For a builtin value it touches nothing. For a list or any
  other object it runs code of that object, the parameter \<open>obj_str\<close>: a step on the
  store that returns a text or raises, and that may change objects and write.
\<close>

definition py_str_st ::
  "('a pyval \<Rightarrow> 'a py_state \<Rightarrow> (py_error + string) \<times> 'a py_state) \<Rightarrow> 'a pyval \<Rightarrow> 'a py_state
     \<Rightarrow> (py_error + string) \<times> 'a py_state" where
  "py_str_st obj_str v s =
     (case v of
        PyNone \<Rightarrow> (Inr ''None'', s)
      | PyStr t \<Rightarrow> (Inr t, s)
      | PyInt i \<Rightarrow>
          (if int_max_str_digits < length (str_nat (nat \<bar>i\<bar>)) then (Inl ValueError, s)
           else (Inr (str_int i), s))
      | PyBool b \<Rightarrow> (Inr (if b then ''True'' else ''False''), s)
      | PyList xs \<Rightarrow> obj_str v s
      | PyIterable x items \<Rightarrow> obj_str v s
      | PyOther x \<Rightarrow> obj_str v s)"

text \<open>The values whose \<open>str\<close> runs code of the object.\<close>

definition is_object :: "'a pyval \<Rightarrow> bool" where
  "is_object v =
     (case v of
        PyList xs \<Rightarrow> True
      | PyIterable x items \<Rightarrow> True
      | PyOther x \<Rightarrow> True
      | _ \<Rightarrow> False)"

text \<open>
  \<open>sep.join(parts)\<close> on a list object: \<open>TypeError\<close> when an item is not a \<open>str\<close>.
\<close>

fun strs_of :: "'a pyval list \<Rightarrow> py_error + string list" where
  "strs_of [] = Inr []"
| "strs_of (PyStr t # vs) = (case strs_of vs of Inl e \<Rightarrow> Inl e | Inr ts \<Rightarrow> Inr (t # ts))"
| "strs_of (v # vs) = Inl TypeError"

definition py_join_items :: "string \<Rightarrow> 'a pyval list \<Rightarrow> py_error + string" where
  "py_join_items sep parts =
     (case strs_of parts of Inl e \<Rightarrow> Inl e | Inr ts \<Rightarrow> Inr (py_join sep ts))"

text \<open>
  One step of the \<open>for\<close> statement. The iterator of a list holds the list's address
  and an index \<open>i\<close>, and reads item \<open>i\<close> of the list as it is at that moment, until \<open>i\<close>
  reaches the current length. An iterator object hands out its first remaining item
  and keeps the rest: reading it changes it. The result is \<open>None\<close> for a dangling
  address, \<open>Some None\<close> when the iteration is over, and otherwise the item with the
  store after the read.
\<close>

definition py_next :: "addr \<Rightarrow> nat \<Rightarrow> 'a py_state \<Rightarrow> ('a pyval \<times> 'a py_state) option option" where
  "py_next chunks i s =
     (case heap s chunks of
        None \<Rightarrow> None
      | Some (ListObj items) \<Rightarrow>
          Some (if i < length items then Some (items ! i, s) else None)
      | Some (IterObj remaining) \<Rightarrow>
          Some (case remaining of
                  [] \<Rightarrow> None
                | chunk # rest \<Rightarrow> Some (chunk, s\<lparr>heap := (heap s)(chunks \<mapsto> IterObj rest)\<rparr>)))"

text \<open>
  The \<open>for\<close> loop on the store. It need not end (a list that grows as fast as it is
  read), so its result is an option: \<open>None\<close> is no result. An exception of \<open>str\<close> ends
  the loop with the store as it is at that moment.
\<close>

partial_function (option) summarize_loop_st ::
  "('a pyval \<Rightarrow> 'a py_state \<Rightarrow> (py_error + string) \<times> 'a py_state) \<Rightarrow> addr \<Rightarrow> addr \<Rightarrow> nat \<Rightarrow> 'a py_state
     \<Rightarrow> ((py_error + unit) \<times> 'a py_state) option" where
  "summarize_loop_st obj_str chunks safe_chunks i s =
     (case py_next chunks i s of
        None \<Rightarrow> None
      | Some None \<Rightarrow> Some (Inr (), s)
      | Some (Some (chunk, s0)) \<Rightarrow>
         (if chunk = PyNone then summarize_loop_st obj_str chunks safe_chunks (Suc i) s0
          else (case py_str_st obj_str chunk s0 of
                  (Inl e, s1) \<Rightarrow> Some (Inl e, s1)
                | (Inr text, s1) \<Rightarrow>
                    summarize_loop_st obj_str chunks safe_chunks (Suc i)
                      (list_append safe_chunks (PyStr (take 5000 text)) s1))))"

definition summarize_st ::
  "('a pyval \<Rightarrow> 'a py_state \<Rightarrow> (py_error + string) \<times> 'a py_state) \<Rightarrow> py_ref \<Rightarrow> 'a py_state
     \<Rightarrow> ((py_error + string) \<times> 'a py_state) option" where
  "summarize_st obj_str chunks s =
     (case chunks of
        RefNone \<Rightarrow> Some (Inr '''', s)
      | Ref a \<Rightarrow>
         (let (safe_chunks, s1) = new_list s
          in case summarize_loop_st obj_str a safe_chunks 0 s1 of
               None \<Rightarrow> None
             | Some (Inl e, s2) \<Rightarrow> Some (Inl e, s2)
             | Some (Inr u, s2) \<Rightarrow>
                (case heap s2 safe_chunks of
                   Some (ListObj parts) \<Rightarrow>
                    (if parts = [] then Some (Inr '''', s2)
                     else (case py_join_items ''\<newline>'' parts of
                             Inl e \<Rightarrow> Some (Inl e, s2)
                           | Inr summary \<Rightarrow> Some (Inr (take 20000 summary), s2)))
                 | _ \<Rightarrow> None)))"

text \<open>
  A store is well formed when nothing is allocated at or above \<open>next_addr\<close>, so that a
  new list never shares its address with an existing one.
\<close>

definition wf_state :: "'a py_state \<Rightarrow> bool" where
  "wf_state s = (\<forall>a. next_addr s \<le> a \<longrightarrow> heap s a = None)"

text \<open>
  A store with one list object, \<open>["a", None, obj]\<close>, and one line already written;
  \<open>str(obj)\<close> returns \<open>obj\<close> and touches nothing.
\<close>

definition example_state :: "unit py_state" where
  "example_state =
     \<lparr>heap = Map.empty(0 \<mapsto> ListObj [PyStr ''a'', PyNone, PyOther ()]),
      next_addr = 1, io_log = [''started'']\<rparr>"

definition quiet_str :: "unit pyval \<Rightarrow> unit py_state \<Rightarrow> (py_error + string) \<times> unit py_state" where
  "quiet_str v s = (plain_str v, s)"

text \<open>A store with one iterator object, \<open>iter(["a"])\<close>.\<close>

definition iterator_state :: "unit py_state" where
  "iterator_state = \<lparr>heap = Map.empty(0 \<mapsto> IterObj [PyStr ''a'']), next_addr = 1, io_log = []\<rparr>"

text \<open>
  A store with one list object that holds one instance of a class whose \<open>__str__\<close>
  appends \<open>extra\<close> to that very list and returns \<open>m\<close>.
\<close>

definition object_state :: "unit py_state" where
  "object_state = \<lparr>heap = Map.empty(0 \<mapsto> ListObj [PyOther ()]), next_addr = 1, io_log = []\<rparr>"

definition appending_str :: "unit pyval \<Rightarrow> unit py_state \<Rightarrow> (py_error + string) \<times> unit py_state" where
  "appending_str v s = (Inr ''m'', list_append 0 (PyStr ''extra'') s)"

section \<open>The vector generator\<close>







section \<open>Properties of the summarizer\<close>

subsection \<open>The loop as a filter and a map\<close>

lemma summarize_loop_append:
  "summarize_loop other xs acc =
     acc @ map (\<lambda>v. take 5000 (py_str other v)) (filter (\<lambda>v. v \<noteq> PyNone) xs)"
proof (induction xs arbitrary: acc)
  case Nil
  show ?case by simp
next
  case (Cons x xs)
  show ?case by (cases x) (simp_all add: Cons.IH)
qed

lemma summarize_list:
  "summarize other (PyList xs) =
     (let safe_chunks = summarize_loop other xs []
      in if safe_chunks = [] then Inr '''' else Inr (take 20000 (py_join ''\<newline>'' safe_chunks)))"
  by (simp add: summarize_def py_iter_def Let_def)

lemma summarize_none: "summarize other PyNone = Inr ''''"
  by (simp add: summarize_def)

lemma summarize_loop_nones: "summarize_loop other (replicate n PyNone) acc = acc"
  by (induction n) simp_all

text \<open>
  Claim C5. \<open>summarize(None)\<close> is the empty string, \<open>summarize([])\<close> is the empty
  string, and the summary of a sequence that holds only \<open>None\<close> fragments, of any
  length, is the empty string; \<open>[None, None]\<close> is such a sequence.
\<close>

theorem summarize_empty_inputs:
  "summarize other PyNone = Inr ''''
   \<and> summarize other (PyList []) = Inr ''''
   \<and> summarize other (PyList (replicate n PyNone)) = Inr ''''
   \<and> summarize other (PyList [PyNone, PyNone]) = Inr ''''"
  by (simp add: summarize_none summarize_list summarize_loop_nones)

lemma summarize_str:
  "summarize other (PyStr t) =
     (let safe_chunks = summarize_loop other (map (\<lambda>c. PyStr [c]) t) []
      in if safe_chunks = [] then Inr '''' else Inr (take 20000 (py_join ''\<newline>'' safe_chunks)))"
  by (simp add: summarize_def py_iter_def Let_def)

text \<open>
  An argument that is neither \<open>None\<close> nor iterable is outside the declared parameter
  type \<open>Iterable[str]\<close>; the \<open>for\<close> statement raises on it. Any other iterable
  object is summarized like the list of its items.
\<close>

lemma summarize_not_iterable:
  "summarize other (PyInt i) = Inl TypeError"
  "summarize other (PyBool b) = Inl TypeError"
  "summarize other (PyOther x) = Inl TypeError"
  "summarize other (PyIterable x items) = summarize other (PyList items)"
  by (simp_all add: summarize_def py_iter_def)

lemma py_join_Cons: "py_join sep (x # xs) = x @ concat (map (\<lambda>y. sep @ y) xs)"
  by (induction xs arbitrary: x) simp_all


lemma replicate_4: "replicate 4 x = [x, x, x, x]"
  by (simp add: numeral_eq_Suc)

subsection \<open>The output bound\<close>

text \<open>
  Claim C2. For every input sequence (\<open>None\<close>, a list, a \<open>str\<close>) \<open>summarize\<close> returns a
  string of at most 20000 characters.
\<close>

theorem summarize_length_bound:
  "(\<exists>s. summarize other PyNone = Inr s \<and> length s \<le> 20000)
   \<and> (\<exists>s. summarize other (PyList xs) = Inr s \<and> length s \<le> 20000)
   \<and> (\<exists>s. summarize other (PyStr t) = Inr s \<and> length s \<le> 20000)"
  by (simp add: summarize_none summarize_list summarize_str Let_def)

subsection \<open>The join law\<close>

text \<open>
  Claim C3. Let \<open>f1 # rest\<close> be the surviving fragments of the list \<open>xs\<close>: the texts of
  its items other than \<open>None\<close>, each cut to its first 5000 characters, in the order of
  \<open>xs\<close>. If \<open>f1\<close> followed by every later fragment with one newline before it has at
  most 20000 characters, then \<open>summarize\<close> returns exactly that string; and every
  surviving fragment has at most 5000 characters.
\<close>

theorem summarize_join_law:
  assumes "map (\<lambda>v. take 5000 (py_str other v)) (filter (\<lambda>v. v \<noteq> PyNone) xs) = f1 # rest"
      and "length (f1 @ concat (map (\<lambda>f. ''\<newline>'' @ f) rest)) \<le> 20000"
    shows "summarize other (PyList xs) = Inr (f1 @ concat (map (\<lambda>f. ''\<newline>'' @ f) rest))
           \<and> (\<forall>f \<in> set (f1 # rest). length f \<le> 5000)"
proof -
  have loop: "summarize_loop other xs [] = f1 # rest"
    using assms(1) by (simp add: summarize_loop_append)
  have bound: "\<forall>f \<in> set (f1 # rest). length f \<le> 5000"
    unfolding assms(1) [symmetric] by auto
  have "summarize other (PyList xs) = Inr (take 20000 (py_join ''\<newline>'' (f1 # rest)))"
    by (simp add: summarize_list loop)
  also have "\<dots> = Inr (f1 @ concat (map (\<lambda>f. ''\<newline>'' @ f) rest))"
    using assms(2) by (simp only: py_join_Cons) simp
  finally show ?thesis using bound by blast
qed

theorem summarize_join_law_witness:
  "summarize (\<lambda>v. '''') (PyList [PyStr ''hello'', PyNone, PyStr ''world'']) = Inr ''hello\<newline>world''"
  using summarize_join_law [of "\<lambda>v. ''''" "[PyStr ''hello'', PyNone, PyStr ''world'']" "''hello''" "[''world'']"]
  by (simp add: py_str_def)

subsection \<open>The truncation law\<close>

text \<open>
  Claim C4. A fragment \<open>v\<close> other than \<open>None\<close>, anywhere in the input, contributes to
  \<open>safe_chunks\<close> exactly one text, between the contributions of the items before it
  and of the items after it. With \<open>L\<close> the length of \<open>str(v)\<close>, that text has length
  \<open>min L 5000\<close> and is a prefix of \<open>str(v)\<close>. The summary of the single fragment of 6000
  characters \<open>a\<close> is the string of 5000 characters \<open>a\<close>.
\<close>

theorem truncation_law:
  assumes "v \<noteq> PyNone"
  shows "summarize_loop other (before @ v # after) []
           = summarize_loop other before [] @ [take 5000 (py_str other v)] @ summarize_loop other after []
         \<and> length (take 5000 (py_str other v)) = min (length (py_str other v)) 5000
         \<and> prefix (take 5000 (py_str other v)) (py_str other v)
         \<and> summarize other (PyList [PyStr (replicate 6000 CHR ''a'')]) = Inr (replicate 5000 CHR ''a'')"
proof -
  have "summarize_loop other (before @ v # after) []
           = summarize_loop other before [] @ [take 5000 (py_str other v)] @ summarize_loop other after []"
    using assms by (simp add: summarize_loop_append)
  moreover have "length (take 5000 (py_str other v)) = min (length (py_str other v)) 5000"
    by simp
  moreover have "prefix (take 5000 (py_str other v)) (py_str other v)"
    by (rule take_is_prefix)
  moreover have "summarize other (PyList [PyStr (replicate 6000 CHR ''a'')]) = Inr (replicate 5000 CHR ''a'')"
    by (simp add: summarize_list py_str_def)
  ultimately show ?thesis by blast
qed

theorem truncation_law_witness:
  "summarize_loop (\<lambda>v. '''') ([PyNone] @ PyInt 7 # [PyStr ''x'']) [] = [''7'', ''x'']"
  using truncation_law [of "PyInt 7" "\<lambda>v. ''''" "[PyNone]" "[PyStr ''x'']"]
  by (simp add: py_str_def str_int_def str_nat.simps digit_char_def)

subsection \<open>Empty strings are fragments\<close>

text \<open>
  Claim C9. Only \<open>None\<close> items are skipped: \<open>safe_chunks\<close> has one entry for every item
  of the input other than \<open>None\<close>, an empty string at the head of the input gives an
  empty entry, and the summary of two empty strings is the one-character string of
  a newline, not the empty string.
\<close>

theorem only_none_skipped:
  "length (summarize_loop other xs []) = length (filter (\<lambda>v. v \<noteq> PyNone) xs)
   \<and> summarize_loop other (PyStr '''' # xs) [] = '''' # summarize_loop other xs []
   \<and> summarize other (PyList [PyStr '''', PyStr '''']) = Inr ''\<newline>''
   \<and> summarize other (PyList [PyStr '''', PyStr '''']) \<noteq> Inr ''''"
  by (simp add: summarize_loop_append summarize_list py_str_def)

subsection \<open>The summary is a prefix of the full join\<close>

text \<open>
  Claim C10. For every input list the summary is the first 20000 characters of the
  newline join of all truncated texts of the items other than \<open>None\<close>, hence a prefix
  of that join, whatever its length. The cut may fall right after a separator: four
  fragments of 4999 characters and a fifth fragment give a summary of 20000
  characters that ends with the fourth newline.
\<close>

theorem summarize_prefix_of_join:
  "(\<exists>s. summarize other (PyList xs) = Inr s
       \<and> s = take 20000 (py_join ''\<newline>'' (map (\<lambda>v. take 5000 (py_str other v)) (filter (\<lambda>v. v \<noteq> PyNone) xs)))
       \<and> prefix s (py_join ''\<newline>'' (map (\<lambda>v. take 5000 (py_str other v)) (filter (\<lambda>v. v \<noteq> PyNone) xs))))
   \<and> summarize other (PyList [PyStr (replicate 4999 CHR ''a''), PyStr (replicate 4999 CHR ''a''),
        PyStr (replicate 4999 CHR ''a''), PyStr (replicate 4999 CHR ''a''), PyStr ''b''])
      = Inr (concat (replicate 4 (replicate 4999 CHR ''a'' @ ''\<newline>'')))"
proof -
  have "\<exists>s. summarize other (PyList xs) = Inr s
       \<and> s = take 20000 (py_join ''\<newline>'' (map (\<lambda>v. take 5000 (py_str other v)) (filter (\<lambda>v. v \<noteq> PyNone) xs)))
       \<and> prefix s (py_join ''\<newline>'' (map (\<lambda>v. take 5000 (py_str other v)) (filter (\<lambda>v. v \<noteq> PyNone) xs)))"
    by (simp add: summarize_list summarize_loop_append Let_def take_is_prefix)
  moreover have "summarize other (PyList [PyStr (replicate 4999 CHR ''a''), PyStr (replicate 4999 CHR ''a''),
        PyStr (replicate 4999 CHR ''a''), PyStr (replicate 4999 CHR ''a''), PyStr ''b''])
      = Inr (concat (replicate 4 (replicate 4999 CHR ''a'' @ ''\<newline>'')))"
    by (simp add: summarize_list py_str_def replicate_4)
  ultimately show ?thesis by blast
qed



section \<open>Properties of \<open>summarize\<close> with exceptions\<close>



lemma summarize_exc_list:
  "summarize_exc obj_str (PyList xs) =
     (case summarize_loop_exc obj_str xs [] of
        Inl e \<Rightarrow> Inl e
      | Inr safe_chunks \<Rightarrow>
          if safe_chunks = [] then Inr '''' else Inr (take 20000 (py_join ''\<newline>'' safe_chunks)))"
  by (simp add: summarize_exc_def py_iter_def Let_def split: sum.split)

text \<open>
  When every call of \<open>str\<close> returns, \<open>summarize_exc\<close> is \<open>summarize\<close> on the texts
  returned, so that the properties of \<open>summarize\<close> above are properties of the function
  with its exceptions.
\<close>

lemma summarize_loop_exc_agrees:
  "\<forall>v \<in> set xs. v \<noteq> PyNone \<longrightarrow> py_str_exc obj_str v = Inr (py_str other v)
   \<Longrightarrow> summarize_loop_exc obj_str xs acc = Inr (summarize_loop other xs acc)"
proof (induction xs arbitrary: acc)
  case Nil
  show ?case by simp
next
  case (Cons x xs)
  then show ?case by (cases x) simp_all
qed

lemma summarize_exc_agrees:
  assumes "py_iter chunks = Inr items"
      and "\<forall>v \<in> set items. v \<noteq> PyNone \<longrightarrow> py_str_exc obj_str v = Inr (py_str other v)"
    shows "summarize_exc obj_str chunks = summarize other chunks"
proof -
  have loop: "summarize_loop_exc obj_str items [] = Inr (summarize_loop other items [])"
    by (rule summarize_loop_exc_agrees [OF assms(2)])
  from assms(1) loop show ?thesis
    by (cases chunks) (auto simp: summarize_exc_def summarize_def py_iter_def Let_def)
qed


lemma summarize_loop_exc_raises:
  "x \<noteq> PyNone \<Longrightarrow> py_str_exc obj_str x = Inl e \<Longrightarrow> summarize_loop_exc obj_str (x # xs) acc = Inl e"
  by (cases x) simp_all







section \<open>Properties of the summarizer on the store\<close>

lemma strs_of_map_PyStr: "strs_of (map PyStr ts) = Inr ts"
  by (induction ts) simp_all

lemma py_join_items_strs: "py_join_items sep (map PyStr ts) = Inr (py_join sep ts)"
  by (simp add: py_join_items_def strs_of_map_PyStr)

lemma py_next_list:
  "heap s a = Some (ListObj xs) \<Longrightarrow>
   py_next a i s = Some (if i < length xs then Some (xs ! i, s) else None)"
  by (simp add: py_next_def)

lemma list_append_list:
  "heap s b = Some (ListObj items) \<Longrightarrow>
   list_append b v s = s\<lparr>heap := (heap s)(b \<mapsto> ListObj (items @ [v]))\<rparr>"
  by (simp add: list_append_def)

lemma summarize_loop_exc_step:
  "x \<noteq> PyNone \<Longrightarrow> py_str_exc obj_str x = Inr t \<Longrightarrow>
   summarize_loop_exc obj_str (x # xs) acc = summarize_loop_exc obj_str xs (acc @ [take 5000 t])"
  by (cases x) simp_all

lemma summarize_loop_st_run:
  assumes "heap s a = Some (ListObj xs)"
      and "heap s b = Some (ListObj (map PyStr acc))"
      and "a \<noteq> b"
      and "i \<le> length xs"
      and "\<forall>v \<in> set xs. \<forall>st. py_str_st obj_str v st = (py_str_exc pure_str v, st)"
  shows "\<exists>r s'. summarize_loop_st obj_str a b i s = Some (r, s')
           \<and> (\<forall>p. p \<noteq> b \<longrightarrow> heap s' p = heap s p)
           \<and> next_addr s' = next_addr s \<and> io_log s' = io_log s
           \<and> (case summarize_loop_exc pure_str (drop i xs) acc of
                 Inl e \<Rightarrow> r = Inl e
               | Inr fs \<Rightarrow> r = Inr () \<and> heap s' b = Some (ListObj (map PyStr fs)))"
  using assms(1,2,4)
proof (induction "length xs - i" arbitrary: i s acc)
  case 0
  then have "i = length xs" by simp
  with 0 show ?case
    by (subst summarize_loop_st.simps) (simp add: py_next_list)
next
  case (Suc n)
  then have lt: "i < length xs" by simp
  then have dr: "drop i xs = xs ! i # drop (Suc i) xs"
    by (simp add: Cons_nth_drop_Suc)
  have n: "n = length xs - Suc i" using Suc.hyps(2) by simp
  have le: "Suc i \<le> length xs" using lt by simp
  have mem: "xs ! i \<in> set xs" using lt by simp
  have nxt: "py_next a i s = Some (Some (xs ! i, s))"
    using Suc.prems(1) lt by (simp add: py_next_list)
  show ?case
  proof (cases "xs ! i = PyNone")
    case True
    from Suc.hyps(1) [OF n Suc.prems(1) Suc.prems(2) le]
    obtain r s' where s': "summarize_loop_st obj_str a b (Suc i) s = Some (r, s')"
      "\<forall>p. p \<noteq> b \<longrightarrow> heap s' p = heap s p"
      "next_addr s' = next_addr s" "io_log s' = io_log s"
      "case summarize_loop_exc pure_str (drop (Suc i) xs) acc of
                 Inl e \<Rightarrow> r = Inl e
               | Inr fs \<Rightarrow> r = Inr () \<and> heap s' b = Some (ListObj (map PyStr fs))"
      by blast
    have "summarize_loop_st obj_str a b i s = Some (r, s')"
      by (subst summarize_loop_st.simps) (simp add: nxt True s'(1))
    moreover have "summarize_loop_exc pure_str (drop i xs) acc
                     = summarize_loop_exc pure_str (drop (Suc i) xs) acc"
      by (simp add: dr True)
    ultimately show ?thesis using s' by auto
  next
    case False
    have str: "py_str_st obj_str (xs ! i) s = (py_str_exc pure_str (xs ! i), s)"
      using assms(5) mem by blast
    show ?thesis
    proof (cases "py_str_exc pure_str (xs ! i)")
      case (Inl e)
      have "summarize_loop_st obj_str a b i s = Some (Inl e, s)"
        by (subst summarize_loop_st.simps) (simp add: nxt False str Inl)
      moreover have "summarize_loop_exc pure_str (drop i xs) acc = Inl e"
        unfolding dr using False Inl by (rule summarize_loop_exc_raises)
      ultimately show ?thesis by simp
    next
      case (Inr t)
      let ?s1 = "list_append b (PyStr (take 5000 t)) s"
      have s1: "?s1 = s\<lparr>heap := (heap s)(b \<mapsto> ListObj (map PyStr (acc @ [take 5000 t])))\<rparr>"
        using Suc.prems(2) by (simp add: list_append_list)
      have a1: "heap ?s1 a = Some (ListObj xs)"
        using Suc.prems(1) assms(3) by (simp add: s1)
      have b1: "heap ?s1 b = Some (ListObj (map PyStr (acc @ [take 5000 t])))"
        by (simp add: s1)
      from Suc.hyps(1) [OF n a1 b1 le]
      obtain r s' where s': "summarize_loop_st obj_str a b (Suc i) ?s1 = Some (r, s')"
        "\<forall>p. p \<noteq> b \<longrightarrow> heap s' p = heap ?s1 p"
        "next_addr s' = next_addr ?s1" "io_log s' = io_log ?s1"
        "case summarize_loop_exc pure_str (drop (Suc i) xs) (acc @ [take 5000 t]) of
                 Inl e \<Rightarrow> r = Inl e
               | Inr fs \<Rightarrow> r = Inr () \<and> heap s' b = Some (ListObj (map PyStr fs))"
        by blast
      have "summarize_loop_st obj_str a b i s = Some (r, s')"
        by (subst summarize_loop_st.simps) (simp add: nxt False str Inr s'(1))
      moreover have "summarize_loop_exc pure_str (drop i xs) acc
                     = summarize_loop_exc pure_str (drop (Suc i) xs) (acc @ [take 5000 t])"
        unfolding dr using False Inr by (rule summarize_loop_exc_step)
      moreover have "\<forall>p. p \<noteq> b \<longrightarrow> heap s' p = heap s p"
        using s'(2) by (simp add: s1)
      moreover have "next_addr s' = next_addr s" "io_log s' = io_log s"
        using s'(3,4) by (simp_all add: s1)
      ultimately show ?thesis using s'(5) by auto
    qed
  qed
qed

lemma py_str_st_pure:
  assumes "is_object v \<longrightarrow> (\<forall>st. obj_str v st = (pure_str v, st))"
  shows "py_str_st obj_str v st = (py_str_exc pure_str v, st)"
  using assms by (cases v) (simp_all add: py_str_st_def py_str_exc_def is_object_def)

text \<open>
  Claim C8, amended. \<open>summarize\<close> writes nothing and changes no object of its own
  accord. Called on \<open>None\<close> it returns the store as it is. Called on a reference to a
  list object of a well-formed store, where \<open>str\<close> of every item that is an object
  returns or raises without touching the store (items that are text, \<open>None\<close>,
  integers or booleans need no such condition), it returns what \<open>summarize_exc\<close>
  returns on the list's items, and in the store it leaves behind the list object
  still holds the same items, the content of every address other than the one newly
  allocated for the local list \<open>safe_chunks\<close> is what it was, and \<open>io_log\<close> is
  unchanged. Fragments are values held in the list, so they are unchanged with it.
\<close>

theorem summarize_frame:
  assumes "wf_state s"
      and "heap s a = Some (ListObj xs)"
      and "\<forall>v \<in> set xs. is_object v \<longrightarrow> (\<forall>st. obj_str v st = (pure_str v, st))"
  shows "summarize_st obj_str RefNone s = Some (Inr [], s)
         \<and> (\<exists>s'. summarize_st obj_str (Ref a) s = Some (summarize_exc pure_str (PyList xs), s')
                \<and> heap s' a = Some (ListObj xs)
                \<and> (\<forall>p. p \<noteq> next_addr s \<longrightarrow> heap s' p = heap s p)
                \<and> io_log s' = io_log s)"
proof -
  let ?b = "next_addr s"
  let ?s1 = "s\<lparr>heap := (heap s)(?b \<mapsto> ListObj []), next_addr := Suc ?b\<rparr>"
  have fresh: "heap s ?b = None"
    using assms(1) by (simp add: wf_state_def)
  then have ab: "a \<noteq> ?b"
    using assms(2) by auto
  have a1: "heap ?s1 a = Some (ListObj xs)"
    using assms(2) ab by simp
  have b1: "heap ?s1 ?b = Some (ListObj (map PyStr []))"
    by simp
  have pure: "\<forall>v \<in> set xs. \<forall>st. py_str_st obj_str v st = (py_str_exc pure_str v, st)"
    using assms(3) by (simp add: py_str_st_pure)
  from summarize_loop_st_run [OF a1 b1 ab _ pure, of 0]
  obtain r s2 where run: "summarize_loop_st obj_str a ?b 0 ?s1 = Some (r, s2)"
    and frame1: "\<forall>p. p \<noteq> ?b \<longrightarrow> heap s2 p = heap ?s1 p"
    and io2: "io_log s2 = io_log ?s1"
    and res: "case summarize_loop_exc pure_str xs [] of
                 Inl e \<Rightarrow> r = Inl e
               | Inr fs \<Rightarrow> r = Inr () \<and> heap s2 ?b = Some (ListObj (map PyStr fs))"
    by auto
  have result: "summarize_st obj_str (Ref a) s = Some (summarize_exc pure_str (PyList xs), s2)"
  proof (cases "summarize_loop_exc pure_str xs []")
    case (Inl e)
    with res have "r = Inl e" by simp
    with run Inl show ?thesis
      by (simp add: summarize_st_def new_list_def summarize_exc_list)
  next
    case (Inr fs)
    with res have "r = Inr ()" and "heap s2 ?b = Some (ListObj (map PyStr fs))" by simp_all
    with run Inr show ?thesis
      by (simp add: summarize_st_def new_list_def summarize_exc_list py_join_items_strs)
  qed
  have keep_a: "heap s2 a = Some (ListObj xs)"
    using frame1 ab a1 by simp
  have frame: "\<forall>p. p \<noteq> ?b \<longrightarrow> heap s2 p = heap s p"
    using frame1 by simp
  have io: "io_log s2 = io_log s"
    by (simp add: io2)
  have none: "summarize_st obj_str RefNone s = Some (Inr [], s)"
    by (simp add: summarize_st_def)
  from none result keep_a frame io show ?thesis by blast
qed

theorem summarize_frame_witness:
  "wf_state example_state \<and> heap example_state 0 = Some (ListObj [PyStr ''a'', PyNone, PyOther ()])
   \<and> (\<exists>s'. summarize_st quiet_str (Ref 0) example_state = Some (Inr ''a\<newline>obj'', s')
          \<and> heap s' 0 = Some (ListObj [PyStr ''a'', PyNone, PyOther ()])
          \<and> io_log s' = [''started''])"
proof -
  have wf: "wf_state example_state"
    by (simp add: wf_state_def example_state_def)
  have h: "heap example_state 0 = Some (ListObj [PyStr ''a'', PyNone, PyOther ()])"
    by (simp add: example_state_def)
  have pure: "\<forall>v \<in> set [PyStr ''a'', PyNone, PyOther ()].
                is_object v \<longrightarrow> (\<forall>st. quiet_str v st = (plain_str v, st))"
    by (simp add: quiet_str_def)
  have r: "summarize_exc plain_str (PyList [PyStr ''a'', PyNone, PyOther ()]) = Inr ''a\<newline>obj''"
    by (simp add: summarize_exc_list py_str_exc_def plain_str_def)
  have io: "io_log example_state = [''started'']"
    by (simp add: example_state_def)
  from summarize_frame [OF wf h pure] wf h show ?thesis
    by (auto simp: r io)
qed

text \<open>
  Claim C8 as it is stated fails in two ways. An iterator is an \<open>Iterable[str]\<close>: the
  loop reads it to its end, so after the call the iterator that held \<open>a\<close> holds
  nothing. And \<open>str\<close> of a fragment runs the fragment's own code: with an object whose
  \<open>__str__\<close> appends \<open>extra\<close> to the input list and returns \<open>m\<close>, the input list has
  grown by the end of the call, and the loop, which reads the list as it is at each
  step, has summarized the new item too.
\<close>

theorem summarize_side_effects_counterexample:
  "summarize_st appending_str (Ref 0) iterator_state
     = Some (Inr ''a'',
             \<lparr>heap = Map.empty(0 \<mapsto> IterObj [], 1 \<mapsto> ListObj [PyStr ''a'']), next_addr = 2, io_log = []\<rparr>)
   \<and> heap iterator_state 0 = Some (IterObj [PyStr ''a''])
   \<and> summarize_st appending_str (Ref 0) object_state
     = Some (Inr ''m\<newline>extra'',
             \<lparr>heap = Map.empty(0 \<mapsto> ListObj [PyOther (), PyStr ''extra''],
                                1 \<mapsto> ListObj [PyStr ''m'', PyStr ''extra'']),
              next_addr = 2, io_log = []\<rparr>)
   \<and> heap object_state 0 = Some (ListObj [PyOther ()])"
proof -
  have it: "summarize_st appending_str (Ref 0) iterator_state
     = Some (Inr ''a'',
             \<lparr>heap = Map.empty(0 \<mapsto> IterObj [], 1 \<mapsto> ListObj [PyStr ''a'']), next_addr = 2, io_log = []\<rparr>)"
    apply (simp add: summarize_st_def new_list_def iterator_state_def)
    apply (subst summarize_loop_st.simps)
    apply (simp add: py_next_def py_str_st_def list_append_def)
    apply (subst summarize_loop_st.simps)
    apply (simp add: py_next_def py_join_items_def fun_upd_twist)
    done
  have ob: "summarize_st appending_str (Ref 0) object_state
     = Some (Inr ''m\<newline>extra'',
             \<lparr>heap = Map.empty(0 \<mapsto> ListObj [PyOther (), PyStr ''extra''],
                                1 \<mapsto> ListObj [PyStr ''m'', PyStr ''extra'']),
              next_addr = 2, io_log = []\<rparr>)"
    apply (simp add: summarize_st_def new_list_def object_state_def)
    apply (subst summarize_loop_st.simps)
    apply (simp add: py_next_def py_str_st_def list_append_def appending_str_def)
    apply (subst summarize_loop_st.simps)
    apply (simp add: py_next_def py_str_st_def list_append_def)
    apply (subst summarize_loop_st.simps)
    apply (simp add: py_next_def py_join_items_def fun_upd_twist)
    done
  show ?thesis
    using it ob by (simp add: iterator_state_def object_state_def)
qed

section \<open>Properties of the vector generator\<close>





end
